theory Spec2Isabelle
  imports Main
begin

section \<open>The grocery management script\<close>

text \<open>
  The repository is one Python script, \<^verbatim>\<open>agent.py\<close>, whose statements run top to
  bottom at module level. Its state is the process environment, the files under
  \<^verbatim>\<open>data/\<close>, the console, and the framework objects it builds. The model threads that
  state through each block of the script; the external libraries and services the
  script calls (the dotenv loader, the JSON codec, the image decoder, the vision model,
  the markdown renderer, the clock, the language model behind the agents) are
  parameters of the model, collected in one record.
\<close>

subsection \<open>Values\<close>

type_synonym path = string

text \<open>
  The exceptions the script raises or names, and one constructor for any other
  subclass of \<^verbatim>\<open>Exception\<close> a library call may raise. The string is the message,
  for \<^verbatim>\<open>FileNotFoundError\<close> the path; \<open>str_exn\<close> is \<^verbatim>\<open>str(e)\<close>.
\<close>

datatype exn =
    ValueError string
  | JSONDecodeError string
  | FileNotFoundError string
  | OtherException string

fun str_exn :: "exn \<Rightarrow> string" where
  "str_exn (ValueError m) = m"
| "str_exn (JSONDecodeError m) = m"
| "str_exn (FileNotFoundError p) =
     ''[Errno 2] No such file or directory: '' @ [CHR 0x27] @ p @ [CHR 0x27]"
| "str_exn (OtherException m) = m"

text \<open>
  What \<^verbatim>\<open>json.load\<close> returns: dictionaries keep the order of their keys, as Python's
  do. Numbers are integers here; no number is ever inspected by the script.
\<close>

datatype json =
    JNull
  | JBool bool
  | JNumber int
  | JString string
  | JArray "json list"
  | JObject "(string \<times> json) list"

subsection \<open>Framework objects\<close>

text \<open>
  \<^verbatim>\<open>LLM(api_key=..., model=...)\<close>, \<^verbatim>\<open>WebsiteSearchTool(website=..., config=...)\<close>,
  \<^verbatim>\<open>Agent(...)\<close>, \<^verbatim>\<open>Task(...)\<close> and \<^verbatim>\<open>Crew(...)\<close> are plain configuration objects: each
  keeps the keyword arguments it was built with. A task's context is a list of tasks,
  so tasks are a recursive datatype. Arguments the script leaves out take the
  framework's defaults: no tools, no human input, no context, no output file.
\<close>

record llm =
  llm_api_key :: string
  llm_model :: string

record website_search_tool =
  tool_website :: string
  tool_llm_provider :: string
  tool_llm_model :: string
  tool_embedder_provider :: string
  tool_embedder_model :: string
  tool_embedder_task_type :: string

record agent =
  agent_role :: string
  agent_goal :: string
  agent_backstory :: string
  agent_personality :: string
  agent_allow_delegation :: bool
  agent_verbose :: bool
  agent_tools :: "website_search_tool list"
  agent_human_input :: bool
  agent_llm :: llm

datatype task =
  Task (task_agent: agent) (task_description: string) (task_expected_output: string)
       (task_context: "task list") (task_human_input: bool) (task_output_file: "path option")

record crew =
  crew_agents :: "agent list"
  crew_tasks :: "task list"
  crew_verbose :: bool

datatype object =
    LLM_Object llm
  | GenerativeModel_Object string string
  | WebsiteSearchTool_Object website_search_tool
  | Agent_Object agent
  | Task_Object task
  | Crew_Object crew

subsection \<open>The world and the external libraries\<close>

text \<open>
  \<open>environ\<close> is \<^verbatim>\<open>os.environ\<close>; \<open>files\<close> maps a path to the content of the file there,
  one character for each byte (\<open>None\<close>: no such file); \<open>console\<close> holds the printed lines, oldest first;
  \<open>constructed\<close> holds the framework objects built so far, oldest first. Directories
  are not modelled: \<^verbatim>\<open>mkdir(exist_ok=True)\<close> leaves the files as they are, and a write
  to a path always succeeds.
\<close>

record world =
  environ :: "string \<rightharpoonup> string"
  files :: "path \<rightharpoonup> string"
  console :: "string list"
  constructed :: "object list"

text \<open>
  The libraries and services outside the repository. A call that can raise returns
  \<open>Inl\<close> of the exception. \<open>generate_content\<close> is the vision model's
  \<^verbatim>\<open>generate_content([prompt, image]).text\<close>; \<open>json_load\<close> is \<^verbatim>\<open>json.load\<close> on the
  file opened for reading: it decodes the content and parses it, raises
  \<^verbatim>\<open>JSONDecodeError\<close> on a text that is not JSON, and raises other exceptions too
  (\<^verbatim>\<open>UnicodeDecodeError\<close> on bytes that are no text); \<open>json_dump\<close> is \<^verbatim>\<open>json.dump\<close>
  with \<^verbatim>\<open>indent=2\<close>; \<open>datetime_now\<close> is \<^verbatim>\<open>datetime.now().strftime("%Y-%m-%d")\<close>;
  \<open>reasoning_service\<close> is the language model behind the agents, asked to carry out one
  task given the outputs of the tasks in its context.
\<close>

record library =
  load_dotenv :: "(string \<rightharpoonup> string) \<Rightarrow> (string \<rightharpoonup> string)"
  json_load :: "string \<Rightarrow> exn + json"
  json_dump :: "json \<Rightarrow> string"
  image_open :: "string \<Rightarrow> exn + string"
  generate_content :: "string \<Rightarrow> string \<Rightarrow> exn + string"
  markdown :: "string \<Rightarrow> string"
  datetime_now :: string
  reasoning_service :: "task \<Rightarrow> string list \<Rightarrow> exn + string"

text \<open>
  Every block of the script maps a world to a world and either a value or the
  exception that left the block uncaught.
\<close>

type_synonym 'a outcome = "world \<times> (exn + 'a)"

definition and_then :: "'a outcome \<Rightarrow> ('a \<Rightarrow> world \<Rightarrow> 'b outcome) \<Rightarrow> 'b outcome" where
  "and_then r f = (case r of (w, Inl e) \<Rightarrow> (w, Inl e) | (w, Inr a) \<Rightarrow> f a w)"

definition py_print :: "string \<Rightarrow> world \<Rightarrow> world" where
  "py_print line w = w\<lparr>console := console w @ [line]\<rparr>"

definition construct :: "object \<Rightarrow> world \<Rightarrow> world" where
  "construct ob w = w\<lparr>constructed := constructed w @ [ob]\<rparr>"

definition path_exists :: "world \<Rightarrow> path \<Rightarrow> bool" where
  "path_exists w p = (files w p \<noteq> None)"

definition write_text :: "path \<Rightarrow> string \<Rightarrow> world \<Rightarrow> world" where
  "write_text p s w = w\<lparr>files := (files w)(p \<mapsto> s)\<rparr>"

definition read_text :: "path \<Rightarrow> world \<Rightarrow> exn + string" where
  "read_text p w = (case files w p of None \<Rightarrow> Inl (FileNotFoundError p) | Some s \<Rightarrow> Inr s)"

definition os_getenv :: "world \<Rightarrow> string \<Rightarrow> string option" where
  "os_getenv w name = environ w name"

subsection \<open>Configuration: the API key guard and the two models\<close>

text \<open>
  Lines 23 to 39. \<^verbatim>\<open>if not GOOGLE_API_KEY\<close> holds when the variable is unset
  (\<^verbatim>\<open>os.getenv\<close> gives \<^verbatim>\<open>None\<close>) and when it is the empty string.
\<close>

definition configure :: "library \<Rightarrow> world \<Rightarrow> llm outcome" where
  "configure X w0 =
    (let w = w0\<lparr>environ := load_dotenv X (environ w0)\<rparr> in
     case os_getenv w ''GOOGLE_API_KEY'' of
       None \<Rightarrow> (w, Inl (ValueError ''Please set GOOGLE_API_KEY in your environment variables''))
     | Some GOOGLE_API_KEY \<Rightarrow>
         if GOOGLE_API_KEY = []
         then (w, Inl (ValueError ''Please set GOOGLE_API_KEY in your environment variables''))
         else
           (let gemini_model =
                  \<lparr>llm_api_key = GOOGLE_API_KEY, llm_model = ''gemini/gemini-1.5-flash''\<rparr>;
                w1 = construct (LLM_Object gemini_model) w;
                w2 = construct (GenerativeModel_Object GOOGLE_API_KEY ''gemini-1.5-flash'') w1
            in (w2, Inr gemini_model)))"

subsection \<open>The expense history file\<close>

definition expense_history_path :: path where
  "expense_history_path = ''data/expense_history.json''"

definition default_expense_history :: json where
  "default_expense_history =
     JObject [(''expenses'', JArray []), (''categories'', JObject []),
              (''monthly_summaries'', JObject [])]"

text \<open>
  Lines 79 to 106. The file is created when it is missing or has size zero; otherwise
  it is parsed, and only a \<^verbatim>\<open>JSONDecodeError\<close> is caught: the file is then written
  again with the default. Any other exception of the parser leaves the block.
\<close>

definition init_expense_history :: "library \<Rightarrow> world \<Rightarrow> json outcome" where
  "init_expense_history X w =
    (case files w expense_history_path of
       None \<Rightarrow>
         (py_print ''Created new expense history file with default structure''
            (write_text expense_history_path (json_dump X default_expense_history) w),
          Inr default_expense_history)
     | Some content \<Rightarrow>
         if length content = 0
         then
           (py_print ''Created new expense history file with default structure''
              (write_text expense_history_path (json_dump X default_expense_history) w),
            Inr default_expense_history)
         else
           (case json_load X content of
              Inr expense_history \<Rightarrow>
                (py_print ''Expense history loaded successfully!'' w, Inr expense_history)
            | Inl (JSONDecodeError m) \<Rightarrow>
                (write_text expense_history_path (json_dump X default_expense_history)
                   (py_print ''Error: expense_history.json is corrupted. Creating new file...'' w),
                 Inr default_expense_history)
            | Inl e \<Rightarrow> (w, Inl e)))"

subsection \<open>Receipt ingestion\<close>

definition receipt_md_path :: path where
  "receipt_md_path = ''data/grocery_receipt.md''"

definition receipt_image_path :: path where
  "receipt_image_path = ''data/receipt.png''"

definition vision_prompt :: string where
  \<open>vision_prompt = ''
        Analyze this receipt image and extract the following information in markdown format:
        - Store name and date
        - List of items with:
          * Item name
          * Quantity
          * Price
          * Category (Groceries/Produce/Dairy/etc.)
        Format the output as a proper markdown document.
        ''\<close>

text \<open>
  Lines 46 to 73, the body of the \<^verbatim>\<open>try\<close> in \<^verbatim>\<open>process_receipt_image\<close>: open the image,
  ask the vision model, save its text as the markdown receipt, return the text.
  Opening a path with no file raises \<^verbatim>\<open>FileNotFoundError\<close>.
\<close>

definition process_receipt_image_body :: "library \<Rightarrow> path \<Rightarrow> world \<Rightarrow> string outcome" where
  "process_receipt_image_body X image_path w =
    (case files w image_path of
       None \<Rightarrow> (w, Inl (FileNotFoundError image_path))
     | Some bytes \<Rightarrow>
         (case image_open X bytes of
            Inl e \<Rightarrow> (w, Inl e)
          | Inr img \<Rightarrow>
              (case generate_content X vision_prompt img of
                 Inl e \<Rightarrow> (w, Inl e)
               | Inr markdown_content \<Rightarrow>
                   (py_print (''Receipt processed and saved to '' @ receipt_md_path)
                      (write_text receipt_md_path markdown_content w),
                    Inr markdown_content))))"

text \<open>
  Lines 41 to 77: \<^verbatim>\<open>except Exception as e\<close> prints the message and returns
  \<^verbatim>\<open>None\<close>. The result is a Python value that is either a string or \<^verbatim>\<open>None\<close>.
\<close>

definition process_receipt_image :: "library \<Rightarrow> path \<Rightarrow> world \<Rightarrow> world \<times> string option" where
  "process_receipt_image X image_path w =
    (case process_receipt_image_body X image_path w of
       (w', Inr markdown_content) \<Rightarrow> (w', Some markdown_content)
     | (w', Inl e) \<Rightarrow> (py_print (''Error processing receipt image: '' @ str_exn e) w', None))"

text \<open>\<^verbatim>\<open>str.strip()\<close>, on the whitespace characters of ASCII.\<close>

definition py_isspace :: "char \<Rightarrow> bool" where
  "py_isspace c = (of_char c \<in> {9, 10, 11, 12, 13, 28, 29, 30, 31, 32 :: nat})"

definition strip :: "string \<Rightarrow> string" where
  "strip s = rev (dropWhile py_isspace (rev (dropWhile py_isspace s)))"

text \<open>
  Lines 119 to 134: the markdown file is created empty when missing, read and rendered;
  any exception is printed and replaced by the empty string.
\<close>

definition load_markdown_body :: "library \<Rightarrow> world \<Rightarrow> string outcome" where
  "load_markdown_body X w =
    (let w1 = (if \<not> path_exists w receipt_md_path
               then py_print ''Created empty grocery_receipt.md file''
                      (write_text receipt_md_path [] w)
               else w)
     in case read_text receipt_md_path w1 of
          Inl e \<Rightarrow> (w1, Inl e)
        | Inr content \<Rightarrow>
            (let receipt_markdown = markdown X content in
             (py_print (if strip receipt_markdown \<noteq> []
                        then ''Receipt loaded successfully from markdown!''
                        else ''Warning: grocery_receipt.md is empty'') w1,
              Inr receipt_markdown)))"

definition load_markdown :: "library \<Rightarrow> world \<Rightarrow> world \<times> string" where
  "load_markdown X w =
    (case load_markdown_body X w of
       (w', Inr receipt_markdown) \<Rightarrow> (w', receipt_markdown)
     | (w', Inl e) \<Rightarrow> (py_print (''Error reading markdown file: '' @ str_exn e) w', []))"

text \<open>
  Lines 108 to 134. \<^verbatim>\<open>if not receipt_markdown\<close> holds for \<^verbatim>\<open>None\<close> and for the empty
  string.
\<close>

definition falsy :: "string option \<Rightarrow> bool" where
  "falsy v = (case v of None \<Rightarrow> True | Some s \<Rightarrow> s = [])"

definition load_receipt :: "library \<Rightarrow> world \<Rightarrow> world \<times> string" where
  "load_receipt X w =
    (let (w1, receipt_markdown) =
           (if path_exists w receipt_image_path
            then
              (let (w', r) = process_receipt_image X receipt_image_path
                               (py_print ''Found receipt image, processing...'' w)
               in (if falsy r
                   then py_print ''Failed to process receipt image, checking for markdown file...'' w'
                   else w', r))
            else (w, Some []))
     in case receipt_markdown of
          None \<Rightarrow> load_markdown X w1
        | Some r \<Rightarrow> if r = [] then load_markdown X w1 else (w1, r))"

text \<open>
  Lines 175 to 180: the markdown file is read again, with no guard, and its rendering
  replaces whatever the block above assigned.
\<close>

definition reload_receipt :: "library \<Rightarrow> world \<Rightarrow> (string \<times> string) outcome" where
  "reload_receipt X w =
    (case read_text receipt_md_path w of
       Inl e \<Rightarrow> (w, Inl e)
     | Inr content \<Rightarrow>
         (py_print ''Receipt loaded successfully!'' w, Inr (markdown X content, datetime_now X)))"

subsection \<open>Tools, agents and tasks\<close>

definition expiration_date_search_web_tool :: website_search_tool where
  "expiration_date_search_web_tool =
    \<lparr>tool_website = ''https://www.stilltasty.com/'',
     tool_llm_provider = ''google'',
     tool_llm_model = ''gemini/gemini-1.5-flash'',
     tool_embedder_provider = ''google'',
     tool_embedder_model = ''models/embedding-001'',
     tool_embedder_task_type = ''retrieval_document''\<rparr>"

definition recipe_web_tool :: website_search_tool where
  "recipe_web_tool =
    \<lparr>tool_website = ''https://www.americastestkitchen.com/recipes'',
     tool_llm_provider = ''google'',
     tool_llm_model = ''gemini/gemini-1.5-flash'',
     tool_embedder_provider = ''google'',
     tool_embedder_model = ''models/embedding-001'',
     tool_embedder_task_type = ''retrieval_document''\<rparr>"

definition receipt_interpreter_agent :: "llm \<Rightarrow> agent" where
  \<open>receipt_interpreter_agent gemini_model =
    \<lparr>agent_role = ''Receipt Markdown Interpreter'',
     agent_goal =
       ''Accurately extract items, their counts, and weights with units from a given receipt in markdown format. Provide structured data to support the grocery management system.'',
     agent_backstory =
       ''As a key member of the grocery management crew for the household, your mission is to meticulously extract details such as item names, quantities, and weights from receipt markdown files. Your role is vital for the grocery tracker agent, which monitors the household's inventory levels.'',
     agent_personality =
       ''Diligent, detail-oriented, and efficient. The Receipt Markdown Interpreter is committed to providing accurate and structured information to support effective grocery management. It is particularly focused on clarity and precision.'',
     agent_allow_delegation = False,
     agent_verbose = True,
     agent_tools = [],
     agent_human_input = False,
     agent_llm = gemini_model\<rparr>\<close>

definition expiration_date_search_agent :: "llm \<Rightarrow> agent" where
  \<open>expiration_date_search_agent gemini_model =
    \<lparr>agent_role = ''Expiration Date Estimation Specialist'',
     agent_goal =
       ''Accurately estimate the expiration dates of items extracted by the Receipt Markdown Interpreter Agent. Utilize online sources to determine typical shelf life when refrigerated and add the estimated number of days to the purchase date.'',
     agent_backstory =
       ''As the Expiration Date Estimation Specialist, your role is to ensure the household's groceries are consumed before expiration. You use your access to online resources to search for the best estimates on how long each item typically lasts when stored properly.'',
     agent_personality =
       ''Meticulous, resourceful, and reliable. This agent ensures the household maintains a well-stocked but efficiently used inventory, minimizing waste.'',
     agent_allow_delegation = False,
     agent_verbose = True,
     agent_tools = [expiration_date_search_web_tool],
     agent_human_input = False,
     agent_llm = gemini_model\<rparr>\<close>

definition grocery_tracker_agent :: "llm \<Rightarrow> agent" where
  \<open>grocery_tracker_agent gemini_model =
    \<lparr>agent_role = ''Grocery Inventory Tracker'',
     agent_goal =
       ''Accurately track the remaining groceries based on user consumption input. Subtract consumed items from the grocery list obtained from the Expiration Date Estimation Specialist and update the inventory. Provide the user with an updated list of what's left, along with corresponding expiration dates.'',
     agent_backstory =
       ''As the household's Grocery Inventory Tracker, your responsibility is to ensure that groceries are accurately tracked based on user input. You need to understand the user's input on what they've consumed, update the inventory list, and remind them of what's left and the expiration dates. Your role is crucial in helping the household avoid waste and ensure timely consumption of perishable items.'',
     agent_personality =
       ''Helpful, detail-oriented, and responsive. This agent is focused on ensuring the household has an up-to-date inventory, minimizing waste, and helping users stay organized.'',
     agent_allow_delegation = False,
     agent_verbose = True,
     agent_tools = [],
     agent_human_input = False,
     agent_llm = gemini_model\<rparr>\<close>

definition rest_grocery_recipe_agent :: "llm \<Rightarrow> agent" where
  \<open>rest_grocery_recipe_agent gemini_model =
    \<lparr>agent_role = ''Grocery Recipe Recommendation Specialist'',
     agent_goal =
       ''Provide recipe recommendations using the remaining groceries in the inventory. Avoid using items with a count of 0 and prioritize recipes that maximize the use of available ingredients. If ingredients are insufficient, suggest restocking recommendations.'',
     agent_backstory =
       ''As a Grocery Recipe Recommendation Specialist, your mission is to help the household make the most out of their remaining groceries. Your role is to search the web for easy, delicious recipes that utilize available ingredients while minimizing waste. Ensure that the recipes are simple to follow and use as many of the remaining ingredients as possible.'',
     agent_personality =
       ''Creative, resourceful, and efficient. This agent is dedicated to helping the household create enjoyable meals with what they have on hand.'',
     agent_allow_delegation = False,
     agent_verbose = True,
     agent_tools = [recipe_web_tool],
     agent_human_input = True,
     agent_llm = gemini_model\<rparr>\<close>

definition expense_tracking_agent :: "llm \<Rightarrow> agent" where
  \<open>expense_tracking_agent gemini_model =
    \<lparr>agent_role = ''Grocery Expense Analyst'',
     agent_goal =
       ''Track and analyze grocery expenses, provide spending insights, and help optimize the grocery budget. Generate detailed reports on spending patterns and identify potential savings opportunities.'',
     agent_backstory =
       ''As the household's Grocery Expense Analyst, you are responsible for maintaining detailed records of all grocery expenses, categorizing items, tracking price trends, and providing actionable insights for budget optimization. Your analysis helps the household make informed decisions about their grocery spending.'',
     agent_personality =
       ''Analytical, detail-oriented, and proactive. This agent excels at identifying spending patterns, tracking price changes, and suggesting ways to optimize the grocery budget while maintaining quality.'',
     agent_allow_delegation = False,
     agent_verbose = True,
     agent_tools = [],
     agent_human_input = False,
     agent_llm = gemini_model\<rparr>\<close>

definition read_receipt_task :: "llm \<Rightarrow> string \<Rightarrow> string \<Rightarrow> task" where
  \<open>read_receipt_task gemini_model receipt_markdown today =
    Task (receipt_interpreter_agent gemini_model)
      (''Analyze the receipt markdown file provided: '' @ receipt_markdown @ ''. Extract information on items purchased, their counts, weights, and units. Additionally, extract today's date information which is provided here: '' @ today @ ''. Ensure all item names are converted into clear, human-readable text.'')
      ''
    {
        "items": [
            {
                "item_name": "string - Human-readable name of the item",
                "count": "integer - Number of units purchased",
                "unit": "string - Unit of measurement (e.g., kg, lbs, pcs)"
            }
        ],
        "date_of_purchase": "string - Date in YYYY-MM-DD format"
    }
    ''
      []
      False
      None\<close>

definition expiration_date_search_task :: "llm \<Rightarrow> string \<Rightarrow> string \<Rightarrow> task" where
  \<open>expiration_date_search_task gemini_model receipt_markdown today =
    Task (expiration_date_search_agent gemini_model)
      (''Using the list of items extracted by the Receipt Markdown Interpreter Agent, search online to find the typical shelf life of each item when refrigerated. Add this information to the date of purchase to estimate the expiration date for each item.Ensure that the output includes the item name, count, unit, and estimated expiration date.'')
      ''
    {
        "items": [
            {
                "item_name": "string - Human-readable name of the item",
                "count": "integer - Number of units purchased",
                "unit": "string - Unit of measurement (e.g., kg, lbs, pcs)",
                "expiration_date": "string - Estimated expiration date in YYYY-MM-DD format"
            }
        ]
    }
    ''
      [read_receipt_task gemini_model receipt_markdown today]
      False
      None\<close>

definition grocery_tracking_task :: "llm \<Rightarrow> string \<Rightarrow> string \<Rightarrow> task" where
  \<open>grocery_tracking_task gemini_model receipt_markdown today =
    Task (grocery_tracker_agent gemini_model)
      (''Using the grocery list with expiration dates provided by the Expiration Date Estimation Specialist, update the inventory based on user input about items they have consumed. Subtract the consumed quantities from the inventory list and provide a summary of what items are left, including their expiration dates. Ensure that the updated list is returned in JSON format.'')
      ''
    {
        "items": [
            {
                "item_name": "string - Human-readable name of the item",
                "count": "integer - Updated number of units remaining",
                "unit": "string - Unit of measurement (e.g., kg, lbs, pcs)",
                "expiration_date": "string - Estimated expiration date in YYYY-MM-DD format"
            }
        ]
    }
    ''
      [expiration_date_search_task gemini_model receipt_markdown today]
      True
      (Some ''data/grocery_tracker.json'')\<close>

definition recipe_recommendation_task :: "llm \<Rightarrow> string \<Rightarrow> string \<Rightarrow> task" where
  \<open>recipe_recommendation_task gemini_model receipt_markdown today =
    Task (rest_grocery_recipe_agent gemini_model)
      (''Using the updated grocery list provided by the Grocery Inventory Tracker, search online for recipes that utilize the available ingredients. Only include items with a count greater than zero. If no suitable recipe can be found, provide restocking recommendations. Ensure that the output includes recipe names, ingredients, instructions, and the source website.'')
      ''
    {
        "recipes": [
            {
                "recipe_name": "string - Name of the recipe",
                "ingredients": [
                    {
                        "item_name": "string - Ingredient name",
                        "quantity": "string - Quantity required",
                        "unit": "string - Measurement unit (e.g., kg, pcs, tbsp)"
                    }
                ],
                "steps": [
                    "string - Step-by-step instructions for the recipe"
                ],
                "source": "string - Website URL for the recipe"
            }
        ],
        "restock_recommendations": [
            {
                "item_name": "string - Name of the item to restock",
                "quantity_needed": "integer - Suggested quantity to purchase",
                "unit": "string - Measurement unit (e.g., kg, pcs)"
            }
        ]
    }
    ''
      [grocery_tracking_task gemini_model receipt_markdown today]
      False
      (Some ''data/recipe_recommendation.json'')\<close>

definition expense_tracking_task :: "llm \<Rightarrow> string \<Rightarrow> string \<Rightarrow> task" where
  \<open>expense_tracking_task gemini_model receipt_markdown today =
    Task (expense_tracking_agent gemini_model)
      (''Using the receipt data from the Receipt Interpreter Agent, analyze the expenses and generate a detailed report. Track spending patterns, categorize items, calculate totals, and provide insights for budget optimization. Store the expense data in the expense history file and generate a summary report.'')
      ''
    {
        "expense_summary": {
            "total_amount": "float - Total amount spent",
            "date": "string - Purchase date",
            "category_breakdown": {
                "category_name": "float - Amount spent in this category"
            }
        },
        "insights": [
            "string - Spending insights and recommendations"
        ],
        "price_trends": [
            {
                "item_name": "string - Name of the item",
                "current_price": "float - Current price",
                "average_price": "float - Average price from history",
                "price_trend": "string - Increasing/Decreasing/Stable"
            }
        ]
    }
    ''
      [read_receipt_task gemini_model receipt_markdown today]
      False
      (Some ''data/expense_history.json'')\<close>

definition crew :: "llm \<Rightarrow> string \<Rightarrow> string \<Rightarrow> crew" where
  "crew gemini_model receipt_markdown today =
    \<lparr>crew_agents =
       [receipt_interpreter_agent gemini_model,
        expiration_date_search_agent gemini_model,
        grocery_tracker_agent gemini_model,
        rest_grocery_recipe_agent gemini_model,
        expense_tracking_agent gemini_model],
     crew_tasks =
       [read_receipt_task gemini_model receipt_markdown today,
        expiration_date_search_task gemini_model receipt_markdown today,
        grocery_tracking_task gemini_model receipt_markdown today,
        recipe_recommendation_task gemini_model receipt_markdown today,
        expense_tracking_task gemini_model receipt_markdown today],
     crew_verbose = True\<rparr>"

text \<open>
  Lines 184 to 517 in the order they run: each constructor call adds its object to
  the world, each \<^verbatim>\<open>print\<close> its line.
\<close>

definition build_crew :: "llm \<Rightarrow> string \<Rightarrow> string \<Rightarrow> world \<Rightarrow> world \<times> crew" where
  "build_crew gemini_model receipt_markdown today w =
    (let w1 = construct (Agent_Object (receipt_interpreter_agent gemini_model)) w;
         w2 = py_print ''Receipt Interpreter Agent created successfully!'' w1;
         w3 = construct (WebsiteSearchTool_Object expiration_date_search_web_tool) w2;
         w4 = py_print ''Expiration Date Search Web Tool created successfully!'' w3;
         w5 = construct (Agent_Object (expiration_date_search_agent gemini_model)) w4;
         w6 = py_print ''Expiration Date Estimation Agent created successfully!'' w5;
         w7 = construct (Agent_Object (grocery_tracker_agent gemini_model)) w6;
         w8 = py_print ''Grocery Tracker Agent created successfully!'' w7;
         w9 = construct (WebsiteSearchTool_Object recipe_web_tool) w8;
         w10 = construct (Agent_Object (rest_grocery_recipe_agent gemini_model)) w9;
         w11 = py_print ''Grocery Recipe Recommendation Agent created successfully!'' w10;
         w12 = construct (Task_Object (read_receipt_task gemini_model receipt_markdown today)) w11;
         w13 = py_print ''Read Receipt Task created successfully!'' w12;
         w14 = construct (Task_Object (expiration_date_search_task gemini_model receipt_markdown today)) w13;
         w15 = py_print ''Expiration Date Search Task created successfully!'' w14;
         w16 = construct (Task_Object (grocery_tracking_task gemini_model receipt_markdown today)) w15;
         w17 = py_print ''Grocery Tracking Task created successfully!'' w16;
         w18 = construct (Task_Object (recipe_recommendation_task gemini_model receipt_markdown today)) w17;
         w19 = py_print ''Recipe Recommendation Task created successfully!'' w18;
         w20 = construct (Agent_Object (expense_tracking_agent gemini_model)) w19;
         w21 = py_print ''Expense Tracking Agent created successfully!'' w20;
         w22 = construct (Task_Object (expense_tracking_task gemini_model receipt_markdown today)) w21;
         w23 = py_print ''Expense Tracking Task created successfully!'' w22;
         c = crew gemini_model receipt_markdown today;
         w24 = construct (Crew_Object c) w23
     in (w24, c))"

subsection \<open>The script up to the crew\<close>

text \<open>
  Lines 23 to 517. The expense history is bound to a variable that no later statement
  reads; the receipt text of \<open>load_receipt\<close> is bound to \<^verbatim>\<open>receipt_markdown\<close> and
  then replaced by \<open>reload_receipt\<close>.
\<close>

definition prepare :: "library \<Rightarrow> world \<Rightarrow> crew outcome" where
  "prepare X w0 =
    and_then (configure X w0) (\<lambda>gemini_model w1.
    and_then (init_expense_history X w1) (\<lambda>expense_history w2.
    (let (w3, receipt_markdown) = load_receipt X w2 in
     and_then (reload_receipt X w3) (\<lambda>(receipt_markdown, today) w4.
     (let (w5, c) = build_crew gemini_model receipt_markdown today w4 in (w5, Inr c))))))"

subsection \<open>Running the crew\<close>

text \<open>
  Modelled from the spec: the stage runner, \<^verbatim>\<open>Crew.kickoff\<close> of the orchestration
  framework, whose code is not part of the repository. The specification describes it
  (sections 2, 4 and 5): the stages run one after the other in the order of the task
  list; each stage sends its instruction, with the outputs of the stages in its
  context, to the external reasoning service, receives text back and, when the task
  names an output file, writes the text to that file. A failure of the service is not
  handled and ends the run. \<open>outputs\<close> pairs every finished task with its output, oldest
  first.
\<close>

fun run_stages :: "library \<Rightarrow> task list \<Rightarrow> (task \<times> string) list \<Rightarrow> world \<Rightarrow> ((task \<times> string) list) outcome" where
  "run_stages X [] outputs w = (w, Inr outputs)"
| "run_stages X (t # ts) outputs w =
    (case reasoning_service X t (map snd (filter (\<lambda>(t', out). t' \<in> set (task_context t)) outputs)) of
       Inl e \<Rightarrow> (w, Inl e)
     | Inr out \<Rightarrow>
         run_stages X ts (outputs @ [(t, out)])
           (case task_output_file t of None \<Rightarrow> w | Some p \<Rightarrow> write_text p out w))"

definition kickoff :: "library \<Rightarrow> crew \<Rightarrow> world \<Rightarrow> ((task \<times> string) list) outcome" where
  "kickoff X c w = run_stages X (crew_tasks c) [] w"

text \<open>The whole script, lines 23 to 522.\<close>

definition run_script :: "library \<Rightarrow> world \<Rightarrow> ((task \<times> string) list) outcome" where
  "run_script X w0 =
    and_then (prepare X w0) (\<lambda>c w.
    and_then (kickoff X c w) (\<lambda>result w'.
      (py_print ''Crew kicked off successfully!'' w', Inr result)))"

subsection \<open>Reading the construction log\<close>

text \<open>The web-search tools among a list of constructed objects, in order.\<close>

fun website_search_tools :: "object list \<Rightarrow> website_search_tool list" where
  "website_search_tools [] = []"
| "website_search_tools (WebsiteSearchTool_Object t # obs) = t # website_search_tools obs"
| "website_search_tools (ob # obs) = website_search_tools obs"

section \<open>Sample libraries and worlds\<close>

text \<open>
  Concrete stand-ins for the external libraries and a few starting worlds, on which the
  theorems below are evaluated. \<open>default_expense_history_text\<close> is what Python's
  \<^verbatim>\<open>json.dump(default_expense_history, f, indent=2)\<close> writes. The sample parser
  accepts one document, \<open>history_text\<close>, and rejects every other text with a
  \<^verbatim>\<open>JSONDecodeError\<close>; the sample serialiser knows the text of the three-key default
  structure; the sample image decoder accepts files that start with
  \<^verbatim>\<open>.PNG\<close>; the sample renderer wraps a non-empty text in one paragraph.
\<close>

definition default_expense_history_text :: string where
  \<open>default_expense_history_text = ''{
  "expenses": [],
  "categories": {},
  "monthly_summaries": {}
}''\<close>

definition history_text :: string where
  \<open>history_text = ''{"expenses": [{"item": "milk", "amount": 3}]}''\<close>

definition corrupted_text :: string where
  \<open>corrupted_text = ''{"expenses": [''\<close>

definition vision_text :: string where
  "vision_text = ''Corner Store: milk 3.00''"

definition summary_text :: string where
  \<open>summary_text = ''{"expense_summary": {"total_amount": 3.0}}''\<close>

definition sample_library :: library where
  "sample_library =
    \<lparr>load_dotenv = (\<lambda>env. env),
     json_load = (\<lambda>s. if s = history_text
                       then Inr (JObject [(''expenses'',
                                   JArray [JObject [(''item'', JString ''milk''),
                                                    (''amount'', JNumber 3)]])])
                       else Inl (JSONDecodeError ''Expecting value: line 1 column 1 (char 0)'')),
     json_dump = (\<lambda>j. if j = JObject [(''expenses'', JArray []), (''categories'', JObject []),
                                         (''monthly_summaries'', JObject [])]
                       then default_expense_history_text else ''null''),
     image_open = (\<lambda>bytes. if take 4 bytes = ''.PNG'' then Inr bytes
                            else Inl (OtherException ''cannot identify image file'')),
     generate_content = (\<lambda>prompt img. Inr vision_text),
     markdown = (\<lambda>s. if s = [] then [] else ''<p>'' @ s @ ''</p>''),
     datetime_now = ''2024-05-01'',
     reasoning_service = (\<lambda>t outputs. Inr summary_text)\<rparr>"

text \<open>
  A second library whose parser fails to decode one file: \<open>undecodable_text\<close> starts
  with bytes that are not valid UTF-8, and reading it raises a \<^verbatim>\<open>UnicodeDecodeError\<close>,
  which is not a \<^verbatim>\<open>JSONDecodeError\<close>.
\<close>

definition undecodable_text :: string where
  "undecodable_text = [CHR 0xFF, CHR 0xFE, CHR ''{'', CHR ''}'']"

definition decoding_library :: library where
  "decoding_library =
    sample_library
      \<lparr>json_load := (\<lambda>s. if s = undecodable_text
                          then Inl (OtherException
                                 ''UnicodeDecodeError: invalid start byte 0xff in position 0'')
                          else json_load sample_library s)\<rparr>"

definition sample_llm :: llm where
  "sample_llm = \<lparr>llm_api_key = ''secret'', llm_model = ''gemini/gemini-1.5-flash''\<rparr>"

definition sample_world :: world where
  "sample_world =
    \<lparr>environ = [''GOOGLE_API_KEY'' \<mapsto> ''secret''], files = Map.empty, console = [],
     constructed = []\<rparr>"

definition corrupted_history_world :: world where
  "corrupted_history_world = write_text expense_history_path corrupted_text sample_world"

definition empty_history_world :: world where
  "empty_history_world = write_text expense_history_path [] sample_world"

definition undecodable_history_world :: world where
  "undecodable_history_world = write_text expense_history_path undecodable_text sample_world"

definition history_world :: world where
  "history_world = write_text expense_history_path history_text sample_world"

definition receipt_world :: world where
  "receipt_world =
     write_text receipt_image_path ''.PNG scan of a receipt''
       (write_text receipt_md_path ''eggs 2.50'' sample_world)"


section \<open>Facts about the blocks of the script\<close>

subsection \<open>State changes of the primitives\<close>

lemma files_py_print [simp]: "files (py_print l w) = files w"
  by (simp add: py_print_def)

lemma files_construct [simp]: "files (construct ob w) = files w"
  by (simp add: construct_def)

lemma files_write_text [simp]: "files (write_text p s w) = (files w)(p \<mapsto> s)"
  by (simp add: write_text_def)

lemma console_py_print [simp]: "console (py_print l w) = console w @ [l]"
  by (simp add: py_print_def)

lemma constructed_py_print [simp]: "constructed (py_print l w) = constructed w"
  by (simp add: py_print_def)

lemma constructed_construct [simp]: "constructed (construct ob w) = constructed w @ [ob]"
  by (simp add: construct_def)

lemma constructed_write_text [simp]: "constructed (write_text p s w) = constructed w"
  by (simp add: write_text_def)

lemma environ_write_text [simp]: "environ (write_text p s w) = environ w"
  by (simp add: write_text_def)

lemma and_then_Inr: "and_then (w, Inr a) f = f a w"
  by (simp add: and_then_def)

lemma and_then_Inl: "and_then (w, Inl e) f = (w, Inl e)"
  by (simp add: and_then_def)

subsection \<open>Configuration and the expense history\<close>

lemma configure_ok:
  assumes "load_dotenv X (environ w) ''GOOGLE_API_KEY'' = Some k" and "k \<noteq> []"
  shows "configure X w =
           (construct (GenerativeModel_Object k ''gemini-1.5-flash'')
              (construct (LLM_Object \<lparr>llm_api_key = k, llm_model = ''gemini/gemini-1.5-flash''\<rparr>)
                 (w\<lparr>environ := load_dotenv X (environ w)\<rparr>)),
            Inr \<lparr>llm_api_key = k, llm_model = ''gemini/gemini-1.5-flash''\<rparr>)"
  using assms by (simp add: configure_def os_getenv_def Let_def)

lemma init_expense_history_created:
  assumes "files w expense_history_path = None \<or> files w expense_history_path = Some []"
  shows "init_expense_history X w =
           (py_print ''Created new expense history file with default structure''
              (write_text expense_history_path (json_dump X default_expense_history) w),
            Inr default_expense_history)"
  using assms by (auto simp: init_expense_history_def)

lemma init_expense_history_loaded:
  assumes "files w expense_history_path = Some content" and "content \<noteq> []"
    and "json_load X content = Inr j"
  shows "init_expense_history X w = (py_print ''Expense history loaded successfully!'' w, Inr j)"
  using assms by (simp add: init_expense_history_def)

lemma configure_Inr:
  "configure X w0 = (w1, Inr g) \<Longrightarrow>
     files w1 = files w0
   \<and> constructed w1 = constructed w0 @
        [LLM_Object g, GenerativeModel_Object (llm_api_key g) ''gemini-1.5-flash'']"
  by (auto simp: configure_def Let_def split: option.splits if_splits)

lemma init_expense_history_constructed:
  "init_expense_history X w = (w', r) \<Longrightarrow> constructed w' = constructed w"
  by (auto simp: init_expense_history_def split: option.splits if_splits sum.splits exn.splits)

lemma init_expense_history_other_files:
  "init_expense_history X w = (w', r) \<Longrightarrow> p \<noteq> expense_history_path \<Longrightarrow> files w' p = files w p"
  by (auto simp: init_expense_history_def split: option.splits if_splits sum.splits exn.splits)

subsection \<open>Receipt ingestion\<close>

lemma process_receipt_image_body_Inl:
  "process_receipt_image_body X p w = (w', Inl e) \<Longrightarrow> w' = w"
  by (auto simp: process_receipt_image_body_def split: option.splits sum.splits)

lemma process_receipt_image_body_Inr:
  "process_receipt_image_body X p w = (w', Inr s) \<Longrightarrow> files w' = (files w)(receipt_md_path \<mapsto> s)"
  by (auto simp: process_receipt_image_body_def split: option.splits sum.splits)

lemma process_receipt_image_Some:
  "process_receipt_image X p w = (w', Some s) \<Longrightarrow> files w' receipt_md_path = Some s"
  by (auto simp: process_receipt_image_def split: prod.splits sum.splits
           dest: process_receipt_image_body_Inr)

lemma process_receipt_image_None:
  "process_receipt_image X p w = (w', None) \<Longrightarrow> files w' = files w"
  by (auto simp: process_receipt_image_def split: prod.splits sum.splits
           dest: process_receipt_image_body_Inl)

lemma load_markdown_body_Inr:
  "\<exists>w'. load_markdown_body X w =
     (w', Inr (markdown X (case files w receipt_md_path of None \<Rightarrow> [] | Some s \<Rightarrow> s)))
   \<and> files w' = (files w)(receipt_md_path \<mapsto> (case files w receipt_md_path of None \<Rightarrow> [] | Some s \<Rightarrow> s))"
  by (auto simp: load_markdown_body_def path_exists_def read_text_def Let_def
           split: option.splits)


lemma load_markdown_file:
  "\<exists>content. files (fst (load_markdown X w)) receipt_md_path = Some content"
  using load_markdown_body_Inr [of X w] by (auto simp: load_markdown_def)

lemma load_receipt_file:
  "\<exists>content. files (fst (load_receipt X w)) receipt_md_path = Some content"
proof (cases "path_exists w receipt_image_path")
  case False
  then show ?thesis
    by (simp add: load_receipt_def load_markdown_file)
next
  case True
  obtain w' r where p: "process_receipt_image X receipt_image_path
                          (py_print ''Found receipt image, processing...'' w) = (w', r)"
    by (cases "process_receipt_image X receipt_image_path
                 (py_print ''Found receipt image, processing...'' w)")
  show ?thesis
  proof (cases r)
    case None
    with True p show ?thesis
      by (simp add: load_receipt_def falsy_def load_markdown_file)
  next
    case (Some s)
    with p have "files w' receipt_md_path = Some s"
      by (simp add: process_receipt_image_Some)
    with True p Some show ?thesis
      by (simp add: load_receipt_def falsy_def load_markdown_file)
  qed
qed

lemma load_receipt_no_image:
  "\<not> path_exists w receipt_image_path \<Longrightarrow> load_receipt X w = load_markdown X w"
  by (simp add: load_receipt_def)




lemma process_receipt_image_body_ok:
  assumes "files w p = Some bytes" and "image_open X bytes = Inr img"
    and "generate_content X vision_prompt img = Inr s"
  shows "process_receipt_image_body X p w =
           (py_print (''Receipt processed and saved to '' @ receipt_md_path)
              (write_text receipt_md_path s w), Inr s)"
  using assms by (simp add: process_receipt_image_body_def)

lemma load_receipt_image_ok:
  assumes "files w receipt_image_path = Some bytes" and "image_open X bytes = Inr img"
    and "generate_content X vision_prompt img = Inr s"
  shows "files (fst (load_receipt X w)) receipt_md_path = Some s"
proof -
  let ?w = "py_print ''Found receipt image, processing...'' w"
  have "files ?w receipt_image_path = Some bytes"
    using assms(1) by simp
  from process_receipt_image_body_ok [OF this assms(2,3)]
  have p: "process_receipt_image X receipt_image_path ?w =
             (py_print (''Receipt processed and saved to '' @ receipt_md_path)
                (write_text receipt_md_path s ?w), Some s)"
    by (simp add: process_receipt_image_def)
  have e: "path_exists w receipt_image_path"
    using assms(1) by (simp add: path_exists_def)
  show ?thesis
  proof (cases "s = []")
    case False
    with p e show ?thesis
      by (simp add: load_receipt_def falsy_def)
  next
    case True
    have "files (fst (load_markdown X
            (py_print ''Failed to process receipt image, checking for markdown file...''
               (py_print (''Receipt processed and saved to '' @ receipt_md_path)
                  (write_text receipt_md_path s ?w))))) receipt_md_path = Some s"
      using load_markdown_body_Inr
              [of X "py_print ''Failed to process receipt image, checking for markdown file...''
                       (py_print (''Receipt processed and saved to '' @ receipt_md_path)
                          (write_text receipt_md_path s ?w))"]
      by (auto simp: load_markdown_def)
    with True p e show ?thesis
      by (simp add: load_receipt_def falsy_def)
  qed
qed

lemma process_receipt_image_constructed:
  "constructed (fst (process_receipt_image X p w)) = constructed w"
  by (auto simp: process_receipt_image_def process_receipt_image_body_def
           split: option.splits sum.splits)

lemma load_markdown_constructed:
  "constructed (fst (load_markdown X w)) = constructed w"
  by (auto simp: load_markdown_def load_markdown_body_def read_text_def Let_def
           split: option.splits sum.splits)

lemma load_receipt_constructed:
  "constructed (fst (load_receipt X w)) = constructed w"
proof -
  obtain w' r where p: "process_receipt_image X receipt_image_path
                          (py_print ''Found receipt image, processing...'' w) = (w', r)"
    by (cases "process_receipt_image X receipt_image_path
                 (py_print ''Found receipt image, processing...'' w)")
  have "constructed w' = constructed w"
    using process_receipt_image_constructed
            [of X receipt_image_path "py_print ''Found receipt image, processing...'' w"] p
    by simp
  with p show ?thesis
    by (auto simp: load_receipt_def load_markdown_constructed split: option.splits)
qed

lemma reload_receipt_Some:
  "files w receipt_md_path = Some content \<Longrightarrow>
     reload_receipt X w =
       (py_print ''Receipt loaded successfully!'' w, Inr (markdown X content, datetime_now X))"
  by (simp add: reload_receipt_def read_text_def)

subsection \<open>The crew\<close>


lemma task_output_file_simps:
  "task_output_file (read_receipt_task g r t) = None"
  "task_output_file (expiration_date_search_task g r t) = None"
  "task_output_file (grocery_tracking_task g r t) = Some ''data/grocery_tracker.json''"
  "task_output_file (recipe_recommendation_task g r t) = Some ''data/recipe_recommendation.json''"
  "task_output_file (expense_tracking_task g r t) = Some ''data/expense_history.json''"
  by (simp_all add: read_receipt_task_def expiration_date_search_task_def grocery_tracking_task_def recipe_recommendation_task_def expense_tracking_task_def)

lemma task_agent_simps:
  "task_agent (read_receipt_task g r t) = receipt_interpreter_agent g"
  "task_agent (expiration_date_search_task g r t) = expiration_date_search_agent g"
  "task_agent (grocery_tracking_task g r t) = grocery_tracker_agent g"
  "task_agent (recipe_recommendation_task g r t) = rest_grocery_recipe_agent g"
  "task_agent (expense_tracking_task g r t) = expense_tracking_agent g"
  by (simp_all add: read_receipt_task_def expiration_date_search_task_def grocery_tracking_task_def recipe_recommendation_task_def expense_tracking_task_def)

lemma agent_tools_simps:
  "agent_tools (receipt_interpreter_agent g) = []"
  "agent_tools (expiration_date_search_agent g) = [expiration_date_search_web_tool]"
  "agent_tools (grocery_tracker_agent g) = []"
  "agent_tools (rest_grocery_recipe_agent g) = [recipe_web_tool]"
  "agent_tools (expense_tracking_agent g) = []"
  by (simp_all add: receipt_interpreter_agent_def expiration_date_search_agent_def grocery_tracker_agent_def rest_grocery_recipe_agent_def expense_tracking_agent_def)

lemma crew_tasks_crew:
  "crew_tasks (crew g r t) =
     [read_receipt_task g r t, expiration_date_search_task g r t, grocery_tracking_task g r t,
      recipe_recommendation_task g r t, expense_tracking_task g r t]"
  by (simp add: crew_def)

lemma crew_agents_crew:
  "crew_agents (crew g r t) =
     [receipt_interpreter_agent g, expiration_date_search_agent g, grocery_tracker_agent g,
      rest_grocery_recipe_agent g, expense_tracking_agent g]"
  by (simp add: crew_def)

lemma build_crew_crew: "snd (build_crew g r t w) = crew g r t"
  by (simp add: build_crew_def Let_def)

lemma build_crew_files: "files (fst (build_crew g r t w)) = files w"
  by (simp add: build_crew_def Let_def)

lemma build_crew_constructed:
  "constructed (fst (build_crew g r t w)) =
     constructed w @
     [Agent_Object (receipt_interpreter_agent g),
      WebsiteSearchTool_Object expiration_date_search_web_tool,
      Agent_Object (expiration_date_search_agent g),
      Agent_Object (grocery_tracker_agent g),
      WebsiteSearchTool_Object recipe_web_tool,
      Agent_Object (rest_grocery_recipe_agent g),
      Task_Object (read_receipt_task g r t),
      Task_Object (expiration_date_search_task g r t),
      Task_Object (grocery_tracking_task g r t),
      Task_Object (recipe_recommendation_task g r t),
      Agent_Object (expense_tracking_agent g),
      Task_Object (expense_tracking_task g r t),
      Crew_Object (crew g r t)]"
  by (simp add: build_crew_def Let_def)

subsection \<open>The script up to the crew, and the run\<close>

lemma prepare_eq:
  assumes "configure X w0 = (w1, Inr g)"
    and "init_expense_history X w1 = (w2, Inr eh)"
    and "files (fst (load_receipt X w2)) receipt_md_path = Some content"
  shows "prepare X w0 =
          (fst (build_crew g (markdown X content) (datetime_now X)
                 (py_print ''Receipt loaded successfully!'' (fst (load_receipt X w2)))),
           Inr (crew g (markdown X content) (datetime_now X)))"
proof -
  obtain w3 r where l: "load_receipt X w2 = (w3, r)"
    by (cases "load_receipt X w2")
  with assms(3) have f: "files w3 receipt_md_path = Some content"
    by simp
  obtain w5 c where b: "build_crew g (markdown X content) (datetime_now X)
                          (py_print ''Receipt loaded successfully!'' w3) = (w5, c)"
    by (cases "build_crew g (markdown X content) (datetime_now X)
                 (py_print ''Receipt loaded successfully!'' w3)")
  have c: "c = crew g (markdown X content) (datetime_now X)"
    using build_crew_crew [of g "markdown X content" "datetime_now X"
                              "py_print ''Receipt loaded successfully!'' w3"] b
    by simp
  show ?thesis
    by (simp add: prepare_def assms(1,2) and_then_Inr l reload_receipt_Some [OF f] b c)
qed

text \<open>What a run of \<open>prepare\<close> that builds the crew went through.\<close>

lemma prepare_Inr:
  assumes "prepare X w0 = (w', Inr c)"
  shows "\<exists>g w1 eh w2 content.
           configure X w0 = (w1, Inr g)
         \<and> init_expense_history X w1 = (w2, Inr eh)
         \<and> files (fst (load_receipt X w2)) receipt_md_path = Some content
         \<and> c = crew g (markdown X content) (datetime_now X)
         \<and> w' = fst (build_crew g (markdown X content) (datetime_now X)
                   (py_print ''Receipt loaded successfully!'' (fst (load_receipt X w2))))"
proof -
  obtain w1 a where c1: "configure X w0 = (w1, a)"
    by (cases "configure X w0")
  with assms obtain g where a: "a = Inr g"
    by (cases a) (auto simp: prepare_def and_then_def)
  obtain w2 b where c2: "init_expense_history X w1 = (w2, b)"
    by (cases "init_expense_history X w1")
  with assms c1 a obtain eh where b: "b = Inr eh"
    by (cases b) (auto simp: prepare_def and_then_def)
  obtain content where f: "files (fst (load_receipt X w2)) receipt_md_path = Some content"
    using load_receipt_file by blast
  from prepare_eq [OF c1 [unfolded a] c2 [unfolded b] f] assms c1 a c2 b f
  show ?thesis
    by auto
qed

lemma kickoff_crew:
  assumes "kickoff X (crew g r t) w = (w', Inr outs)"
  shows "\<exists>o1 o2 o3 o4 o5.
           outs = [(read_receipt_task g r t, o1), (expiration_date_search_task g r t, o2),
                   (grocery_tracking_task g r t, o3), (recipe_recommendation_task g r t, o4),
                   (expense_tracking_task g r t, o5)]
         \<and> files w' = (files w)(''data/grocery_tracker.json'' \<mapsto> o3,
                                 ''data/recipe_recommendation.json'' \<mapsto> o4,
                                 ''data/expense_history.json'' \<mapsto> o5)"
  using assms
  by (auto simp: kickoff_def crew_tasks_crew task_output_file_simps split: sum.splits)

lemma run_script_Inr:
  assumes "run_script X w = (w', Inr outs)"
  shows "\<exists>w1 c. prepare X w = (w1, Inr c) \<and> kickoff X c w1 = (fst (kickoff X c w1), Inr outs)
               \<and> files w' = files (fst (kickoff X c w1))"
proof -
  obtain w1 a where p: "prepare X w = (w1, a)"
    by (cases "prepare X w")
  with assms obtain c where a: "a = Inr c"
    by (cases a) (auto simp: run_script_def and_then_def)
  obtain w2 b where k: "kickoff X c w1 = (w2, b)"
    by (cases "kickoff X c w1")
  with assms p a have "b = Inr outs \<and> w' = py_print ''Crew kicked off successfully!'' w2"
    by (cases b) (auto simp: run_script_def and_then_def)
  with p a k show ?thesis
    by auto
qed

lemma run_script_expense_file:
  assumes "run_script X w = (w', Inr outs)"
  shows "length outs = 5 \<and> files w' expense_history_path = Some (snd (last outs))"
proof -
  from run_script_Inr [OF assms] obtain w1 c where
    p: "prepare X w = (w1, Inr c)" and
    k: "kickoff X c w1 = (fst (kickoff X c w1), Inr outs)" and
    f: "files w' = files (fst (kickoff X c w1))"
    by blast
  from prepare_Inr [OF p] obtain g rm where c: "c = crew g rm (datetime_now X)"
    by blast
  from kickoff_crew [OF k [unfolded c]] f c show ?thesis
    by (auto simp: expense_history_path_def)
qed

text \<open>
  With the API key set, the script builds the crew unless the JSON parser raises
  something other than a \<^verbatim>\<open>JSONDecodeError\<close>: the unguarded read of line 175 always
  finds its file.
\<close>

lemma init_expense_history_Inr_cases:
  assumes "case files w expense_history_path of
             None \<Rightarrow> True
           | Some content \<Rightarrow> content = [] \<or> (\<exists>j. json_load X content = Inr j)
                              \<or> (\<exists>m. json_load X content = Inl (JSONDecodeError m))"
  shows "\<exists>w' eh. init_expense_history X w = (w', Inr eh)"
  using assms
  by (auto simp: init_expense_history_def split: option.splits)

lemma prepare_succeeds:
  assumes "load_dotenv X (environ w) ''GOOGLE_API_KEY'' = Some k" and "k \<noteq> []"
    and "case files w expense_history_path of
             None \<Rightarrow> True
           | Some content \<Rightarrow> content = [] \<or> (\<exists>j. json_load X content = Inr j)
                              \<or> (\<exists>m. json_load X content = Inl (JSONDecodeError m))"
  shows "\<exists>w' content.
           prepare X w =
             (w', Inr (crew \<lparr>llm_api_key = k, llm_model = ''gemini/gemini-1.5-flash''\<rparr>
                         (markdown X content) (datetime_now X)))
         \<and> files w' receipt_md_path = Some content"
proof -
  note c = configure_ok [OF assms(1,2)]
  let ?w1 = "construct (GenerativeModel_Object k ''gemini-1.5-flash'')
              (construct (LLM_Object \<lparr>llm_api_key = k, llm_model = ''gemini/gemini-1.5-flash''\<rparr>)
                 (w\<lparr>environ := load_dotenv X (environ w)\<rparr>))"
  have "files ?w1 = files w"
    by simp
  with assms(3) init_expense_history_Inr_cases [of X ?w1] obtain w2 eh where
    i: "init_expense_history X ?w1 = (w2, Inr eh)"
    by auto
  obtain content where
    l: "files (fst (load_receipt X w2)) receipt_md_path = Some content"
    using load_receipt_file by blast
  from prepare_eq [OF c i l] l show ?thesis
    by (simp add: build_crew_files)
qed

text \<open>
  The crew does not depend on the expense history file: the history that start-up
  loads reaches no agent and no task.
\<close>

lemma load_receipt_md_frame:
  assumes "files w receipt_image_path = files v receipt_image_path"
    and "files w receipt_md_path = files v receipt_md_path"
  shows "files (fst (load_receipt X w)) receipt_md_path =
         files (fst (load_receipt X v)) receipt_md_path"
  using assms
  by (auto simp: load_receipt_def path_exists_def process_receipt_image_def
                 process_receipt_image_body_def load_markdown_def load_markdown_body_def
                 read_text_def falsy_def Let_def
           split: option.splits sum.splits)

lemma configure_llm_frame:
  "environ w = environ v \<Longrightarrow> snd (configure X w) = snd (configure X v)"
  by (simp add: configure_def os_getenv_def Let_def split: option.splits)

lemma prepare_crew_frame:
  assumes "prepare X w = (w', Inr c)"
    and "prepare X (w\<lparr>files := (files w)(expense_history_path := h)\<rparr>) = (v', Inr c')"
  shows "c' = c"
proof -
  let ?v = "w\<lparr>files := (files w)(expense_history_path := h)\<rparr>"
  from prepare_Inr [OF assms(1)] obtain g w1 eh w2 content where
    c: "configure X w = (w1, Inr g)" and
    i: "init_expense_history X w1 = (w2, Inr eh)" and
    l: "files (fst (load_receipt X w2)) receipt_md_path = Some content" and
    cr: "c = crew g (markdown X content) (datetime_now X)"
    by blast
  from prepare_Inr [OF assms(2)] obtain g' v1 eh' v2 content' where
    c': "configure X ?v = (v1, Inr g')" and
    i': "init_expense_history X v1 = (v2, Inr eh')" and
    l': "files (fst (load_receipt X v2)) receipt_md_path = Some content'" and
    cr': "c' = crew g' (markdown X content') (datetime_now X)"
    by blast
  have g: "g' = g"
    using configure_llm_frame [of ?v w X] c c' by simp
  have ne: "receipt_image_path \<noteq> expense_history_path" "receipt_md_path \<noteq> expense_history_path"
    by (simp_all add: receipt_image_path_def receipt_md_path_def expense_history_path_def)
  have f: "files w1 = files w" "files v1 = files ?v"
    using configure_Inr [OF c] configure_Inr [OF c'] by simp_all
  have "files w2 receipt_image_path = files v2 receipt_image_path"
    using init_expense_history_other_files [OF i ne(1)]
          init_expense_history_other_files [OF i' ne(1)] f ne by simp
  moreover have "files w2 receipt_md_path = files v2 receipt_md_path"
    using init_expense_history_other_files [OF i ne(2)]
          init_expense_history_other_files [OF i' ne(2)] f ne by simp
  ultimately have "files (fst (load_receipt X w2)) receipt_md_path =
                   files (fst (load_receipt X v2)) receipt_md_path"
    by (rule load_receipt_md_frame)
  with l l' have "content' = content"
    by simp
  with g cr cr' show ?thesis
    by simp
qed

subsection \<open>The samples\<close>





lemma sample_key:
  "environ w = environ sample_world \<Longrightarrow>
     load_dotenv sample_library (environ w) ''GOOGLE_API_KEY'' = Some ''secret''"
  by (simp add: sample_library_def sample_world_def)

lemma configure_sample:
  assumes "environ w = environ sample_world"
  shows "\<exists>w1. configure sample_library w = (w1, Inr sample_llm) \<and> files w1 = files w"
  using configure_ok [OF sample_key [OF assms]]
  by (simp add: sample_llm_def)

text \<open>The sample run with a readable receipt image.\<close>

lemma prepare_receipt_world:
  "\<exists>w'. prepare sample_library receipt_world =
          (w', Inr (crew sample_llm (''<p>'' @ vision_text @ ''</p>'') ''2024-05-01''))
        \<and> files w' receipt_md_path = Some vision_text"
proof -
  have "environ receipt_world = environ sample_world"
    by (simp add: receipt_world_def)
  from configure_sample [OF this] obtain w1 where
    c: "configure sample_library receipt_world = (w1, Inr sample_llm)" and
    f1: "files w1 = files receipt_world"
    by blast
  have "files w1 expense_history_path = None"
    by (simp add: f1 receipt_world_def sample_world_def expense_history_path_def
                  receipt_image_path_def receipt_md_path_def)
  then have i: "init_expense_history sample_library w1 =
      (py_print ''Created new expense history file with default structure''
         (write_text expense_history_path (json_dump sample_library default_expense_history) w1),
       Inr default_expense_history)" (is "_ = (?w2, _)")
    by (simp add: init_expense_history_created)
  have "files ?w2 receipt_image_path = Some ''.PNG scan of a receipt''"
    by (simp add: f1 receipt_world_def expense_history_path_def receipt_image_path_def)
  moreover have "image_open sample_library ''.PNG scan of a receipt'' = Inr ''.PNG scan of a receipt''"
    by (simp add: sample_library_def)
  moreover have "generate_content sample_library vision_prompt ''.PNG scan of a receipt'' = Inr vision_text"
    by (simp add: sample_library_def)
  ultimately have l: "files (fst (load_receipt sample_library ?w2)) receipt_md_path = Some vision_text"
    by (rule load_receipt_image_ok)
  have m: "markdown sample_library vision_text = ''<p>'' @ vision_text @ ''</p>''"
    by (simp add: sample_library_def vision_text_def)
  have d: "datetime_now sample_library = ''2024-05-01''"
    by (simp add: sample_library_def)
  from prepare_eq [OF c i l] show ?thesis
    by (simp add: m d build_crew_files l)
qed

text \<open>The sample run with an expense history on file and no receipt.\<close>

lemma prepare_history_world:
  "\<exists>w'. prepare sample_library history_world =
          (w', Inr (crew sample_llm [] ''2024-05-01''))
        \<and> files w' expense_history_path = Some history_text"
proof -
  have "environ history_world = environ sample_world"
    by (simp add: history_world_def)
  from configure_sample [OF this] obtain w1 where
    c: "configure sample_library history_world = (w1, Inr sample_llm)" and
    f1: "files w1 = files history_world"
    by blast
  have h: "files w1 expense_history_path = Some history_text"
    by (simp add: f1 history_world_def)
  have n: "history_text \<noteq> []"
    by (simp add: history_text_def)
  have j: "json_load sample_library history_text =
             Inr (JObject [(''expenses'',
                    JArray [JObject [(''item'', JString ''milk''), (''amount'', JNumber 3)]])])"
    by (simp add: sample_library_def)
  note i = init_expense_history_loaded [OF h n j]
  let ?w2 = "py_print ''Expense history loaded successfully!'' w1"
  have ni: "\<not> path_exists ?w2 receipt_image_path"
    by (simp add: path_exists_def f1 history_world_def sample_world_def
                  expense_history_path_def receipt_image_path_def)
  have nm: "files ?w2 receipt_md_path = None"
    by (simp add: f1 history_world_def sample_world_def
                  expense_history_path_def receipt_md_path_def)
  from load_markdown_body_Inr [of sample_library ?w2] nm
  have l: "files (fst (load_receipt sample_library ?w2)) = (files ?w2)(receipt_md_path \<mapsto> [])"
    by (auto simp: load_receipt_no_image [OF ni] load_markdown_def)
  then have l': "files (fst (load_receipt sample_library ?w2)) receipt_md_path = Some []"
    by simp
  have m: "markdown sample_library [] = []"
    by (simp add: sample_library_def)
  have d: "datetime_now sample_library = ''2024-05-01''"
    by (simp add: sample_library_def)
  have ne: "expense_history_path \<noteq> receipt_md_path"
    by (simp add: receipt_md_path_def expense_history_path_def)
  from prepare_eq [OF c i l'] show ?thesis
    by (simp add: m d build_crew_files l h ne)
qed

lemma run_script_history_world:
  "\<exists>w' outs. run_script sample_library history_world = (w', Inr outs)
     \<and> files w' expense_history_path = Some summary_text"
proof -
  from prepare_history_world obtain w1 where
    p: "prepare sample_library history_world = (w1, Inr (crew sample_llm [] ''2024-05-01''))"
    by blast
  have r: "\<And>t outputs. reasoning_service sample_library t outputs = Inr summary_text"
    by (simp add: sample_library_def)
  show ?thesis
    by (simp add: run_script_def p and_then_Inr kickoff_def crew_tasks_crew r
                  task_output_file_simps expense_history_path_def)
qed

section \<open>The expense history file at start-up\<close>

text \<open>
  Claim C2. When no file exists at \<^verbatim>\<open>data/expense_history.json\<close>, the start-up block
  creates it: the block ends without an exception, the file then holds exactly the
  serialisation of the structure with the three keys \<^verbatim>\<open>expenses\<close> (an empty list),
  \<^verbatim>\<open>categories\<close> and \<^verbatim>\<open>monthly_summaries\<close> (empty objects), and the history in memory
  is that structure.
\<close>

theorem missing_expense_history_created:
  assumes "files w expense_history_path = None"
  shows "init_expense_history X w =
           (py_print ''Created new expense history file with default structure''
              (write_text expense_history_path
                 (json_dump X
                    (JObject [(''expenses'', JArray []), (''categories'', JObject []),
                              (''monthly_summaries'', JObject [])])) w),
            Inr (JObject [(''expenses'', JArray []), (''categories'', JObject []),
                          (''monthly_summaries'', JObject [])]))
       \<and> files (fst (init_expense_history X w)) expense_history_path =
           Some (json_dump X
                   (JObject [(''expenses'', JArray []), (''categories'', JObject []),
                             (''monthly_summaries'', JObject [])]))
       \<and> default_expense_history =
           JObject [(''expenses'', JArray []), (''categories'', JObject []),
                    (''monthly_summaries'', JObject [])]"
  using assms
  by (simp add: init_expense_history_def default_expense_history_def py_print_def
                write_text_def)

theorem missing_expense_history_created_witness:
  "files sample_world expense_history_path = None
   \<and> snd (init_expense_history sample_library sample_world) =
       Inr (JObject [(''expenses'', JArray []), (''categories'', JObject []),
                     (''monthly_summaries'', JObject [])])
   \<and> files (fst (init_expense_history sample_library sample_world)) expense_history_path =
       Some default_expense_history_text"
proof -
  have h: "files sample_world expense_history_path = None"
    by (simp add: sample_world_def)
  have d: "json_dump sample_library
             (JObject [(''expenses'', JArray []), (''categories'', JObject []),
                       (''monthly_summaries'', JObject [])]) = default_expense_history_text"
    by (simp add: sample_library_def)
  note t = missing_expense_history_created [OF h, of sample_library]
  have r1: "snd (init_expense_history sample_library sample_world) =
              Inr (JObject [(''expenses'', JArray []), (''categories'', JObject []),
                            (''monthly_summaries'', JObject [])])"
    using conjunct1 [OF t] by simp
  have r2: "files (fst (init_expense_history sample_library sample_world)) expense_history_path =
              Some default_expense_history_text"
    using conjunct1 [OF conjunct2 [OF t]] by (simp add: d)
  show ?thesis
    by (intro conjI) (rule h r1 r2)+
qed

text \<open>
  Claim C1, as amended. When the file exists, is not empty and reading it as JSON
  raises a \<^verbatim>\<open>JSONDecodeError\<close>, the start-up block does not raise: it writes the
  serialisation of the three-key default structure over the file and the history in
  memory is that structure. When reading it raises any other exception, the block
  does not catch it: start-up ends with that exception and the file is left as it
  was.
\<close>

theorem corrupted_expense_history_replaced:
  assumes "files w expense_history_path = Some content"
    and "content \<noteq> []"
  shows "(json_load X content = Inl (JSONDecodeError m) \<longrightarrow>
            init_expense_history X w =
              (write_text expense_history_path
                 (json_dump X
                    (JObject [(''expenses'', JArray []), (''categories'', JObject []),
                              (''monthly_summaries'', JObject [])]))
                 (py_print ''Error: expense_history.json is corrupted. Creating new file...'' w),
               Inr (JObject [(''expenses'', JArray []), (''categories'', JObject []),
                             (''monthly_summaries'', JObject [])]))
          \<and> files (fst (init_expense_history X w)) expense_history_path =
              Some (json_dump X
                      (JObject [(''expenses'', JArray []), (''categories'', JObject []),
                                (''monthly_summaries'', JObject [])])))
       \<and> (json_load X content = Inl e \<and> (\<forall>m'. e \<noteq> JSONDecodeError m') \<longrightarrow>
            init_expense_history X w = (w, Inl e))"
  using assms
  by (cases e)
     (simp_all add: init_expense_history_def default_expense_history_def py_print_def
                    write_text_def)

theorem corrupted_expense_history_replaced_witness:
  "files corrupted_history_world expense_history_path = Some corrupted_text
   \<and> corrupted_text \<noteq> []
   \<and> json_load sample_library corrupted_text =
       Inl (JSONDecodeError ''Expecting value: line 1 column 1 (char 0)'')
   \<and> snd (init_expense_history sample_library corrupted_history_world) =
       Inr (JObject [(''expenses'', JArray []), (''categories'', JObject []),
                     (''monthly_summaries'', JObject [])])
   \<and> files (fst (init_expense_history sample_library corrupted_history_world))
         expense_history_path = Some default_expense_history_text
   \<and> files undecodable_history_world expense_history_path = Some undecodable_text
   \<and> undecodable_text \<noteq> []
   \<and> json_load decoding_library undecodable_text =
       Inl (OtherException ''UnicodeDecodeError: invalid start byte 0xff in position 0'')
   \<and> init_expense_history decoding_library undecodable_history_world =
       (undecodable_history_world,
        Inl (OtherException ''UnicodeDecodeError: invalid start byte 0xff in position 0''))"
proof -
  have f: "files corrupted_history_world expense_history_path = Some corrupted_text"
    by (simp add: corrupted_history_world_def write_text_def)
  have n: "corrupted_text \<noteq> []"
    by (simp add: corrupted_text_def)
  have j: "json_load sample_library corrupted_text =
             Inl (JSONDecodeError ''Expecting value: line 1 column 1 (char 0)'')"
    by (simp add: sample_library_def corrupted_text_def history_text_def)
  have d: "json_dump sample_library
             (JObject [(''expenses'', JArray []), (''categories'', JObject []),
                       (''monthly_summaries'', JObject [])]) = default_expense_history_text"
    by (simp add: sample_library_def)
  note t = corrupted_expense_history_replaced
             [OF f n, where X = sample_library
                and m = "''Expecting value: line 1 column 1 (char 0)''"]
  note t1 = mp [OF conjunct1 [OF t] j]
  have r1: "snd (init_expense_history sample_library corrupted_history_world) =
              Inr (JObject [(''expenses'', JArray []), (''categories'', JObject []),
                            (''monthly_summaries'', JObject [])])"
    using conjunct1 [OF t1] by simp
  have r2: "files (fst (init_expense_history sample_library corrupted_history_world))
              expense_history_path = Some default_expense_history_text"
    using conjunct2 [OF t1] by (simp add: d)
  have f': "files undecodable_history_world expense_history_path = Some undecodable_text"
    by (simp add: undecodable_history_world_def write_text_def)
  have n': "undecodable_text \<noteq> []"
    by (simp add: undecodable_text_def)
  have j': "json_load decoding_library undecodable_text =
              Inl (OtherException ''UnicodeDecodeError: invalid start byte 0xff in position 0'')"
    by (simp add: decoding_library_def)
  note u = corrupted_expense_history_replaced
             [OF f' n', where X = decoding_library
                and e = "OtherException
                           ''UnicodeDecodeError: invalid start byte 0xff in position 0''"]
  have r3: "init_expense_history decoding_library undecodable_history_world =
              (undecodable_history_world,
               Inl (OtherException ''UnicodeDecodeError: invalid start byte 0xff in position 0''))"
    using conjunct2 [OF u] j' by simp
  show ?thesis
    by (intro conjI) (rule f n j r1 r2 f' n' j' r3)+
qed

text \<open>
  Claim C1 as stated fails: a file that is not empty and is no JSON, because its
  first bytes are not valid text, makes the reader raise a \<^verbatim>\<open>UnicodeDecodeError\<close>.
  The block catches only \<^verbatim>\<open>JSONDecodeError\<close>, so start-up ends with the exception
  and the file is not rewritten.
\<close>

theorem undecodable_expense_history_crashes:
  "files undecodable_history_world expense_history_path = Some undecodable_text
   \<and> undecodable_text \<noteq> []
   \<and> json_load decoding_library undecodable_text =
       Inl (OtherException ''UnicodeDecodeError: invalid start byte 0xff in position 0'')
   \<and> snd (init_expense_history decoding_library undecodable_history_world) =
       Inl (OtherException ''UnicodeDecodeError: invalid start byte 0xff in position 0'')
   \<and> snd (run_script decoding_library undecodable_history_world) =
       Inl (OtherException ''UnicodeDecodeError: invalid start byte 0xff in position 0'')
   \<and> files (fst (run_script decoding_library undecodable_history_world)) expense_history_path =
       Some undecodable_text"
proof -
  have f: "files undecodable_history_world expense_history_path = Some undecodable_text"
    by (simp add: undecodable_history_world_def write_text_def)
  have n: "undecodable_text \<noteq> []"
    by (simp add: undecodable_text_def)
  have j: "json_load decoding_library undecodable_text =
             Inl (OtherException ''UnicodeDecodeError: invalid start byte 0xff in position 0'')"
    by (simp add: decoding_library_def)
  have k: "load_dotenv decoding_library (environ undecodable_history_world) ''GOOGLE_API_KEY'' =
             Some ''secret''"
    by (simp add: decoding_library_def sample_library_def undecodable_history_world_def
                  sample_world_def)
  have "''secret'' \<noteq> []"
    by simp
  note c = configure_ok [OF k this]
  let ?w1 = "construct (GenerativeModel_Object ''secret'' ''gemini-1.5-flash'')
              (construct (LLM_Object \<lparr>llm_api_key = ''secret'',
                                       llm_model = ''gemini/gemini-1.5-flash''\<rparr>)
                 (undecodable_history_world
                    \<lparr>environ := load_dotenv decoding_library
                                  (environ undecodable_history_world)\<rparr>))"
  have f1: "files ?w1 expense_history_path = Some undecodable_text"
    using f by simp
  have i: "init_expense_history decoding_library ?w1 =
             (?w1, Inl (OtherException
                          ''UnicodeDecodeError: invalid start byte 0xff in position 0''))"
    using f1 n j by (simp add: init_expense_history_def)
  have i0: "snd (init_expense_history decoding_library undecodable_history_world) =
       Inl (OtherException ''UnicodeDecodeError: invalid start byte 0xff in position 0'')"
    using f n j by (simp add: init_expense_history_def)
  have r: "run_script decoding_library undecodable_history_world =
             (?w1, Inl (OtherException
                          ''UnicodeDecodeError: invalid start byte 0xff in position 0''))"
    by (simp add: run_script_def prepare_def c i and_then_Inr and_then_Inl)
  have r1: "snd (run_script decoding_library undecodable_history_world) =
       Inl (OtherException ''UnicodeDecodeError: invalid start byte 0xff in position 0'')"
    by (simp add: r)
  have r2: "files (fst (run_script decoding_library undecodable_history_world))
              expense_history_path = Some undecodable_text"
    using f1 by (simp add: r)
  show ?thesis
    by (intro conjI) (rule f n j i0 r1 r2)+
qed

text \<open>
  Claim C10. A file of size zero is handled exactly as a missing one: it is
  overwritten with the default, the history in memory is the default, the outcome
  equals the outcome on the same world without the file, and the parser has no part
  in it (replacing the parser by any other changes nothing).
\<close>

theorem empty_expense_history_like_missing:
  assumes "files w expense_history_path = Some []"
  shows "init_expense_history X w =
           (py_print ''Created new expense history file with default structure''
              (write_text expense_history_path (json_dump X default_expense_history) w),
            Inr default_expense_history)
       \<and> init_expense_history X w =
           init_expense_history X (w\<lparr>files := (files w)(expense_history_path := None)\<rparr>)
       \<and> init_expense_history (X\<lparr>json_load := parser\<rparr>) w = init_expense_history X w"
  using assms by (simp add: init_expense_history_def py_print_def write_text_def)

theorem empty_expense_history_like_missing_witness:
  "files empty_history_world expense_history_path = Some []
   \<and> snd (init_expense_history sample_library empty_history_world) = Inr default_expense_history
   \<and> files (fst (init_expense_history sample_library empty_history_world)) expense_history_path =
       Some default_expense_history_text
   \<and> init_expense_history sample_library empty_history_world =
       init_expense_history sample_library
         (empty_history_world\<lparr>files := (files empty_history_world)(expense_history_path := None)\<rparr>)
   \<and> init_expense_history (sample_library\<lparr>json_load := (\<lambda>s. Inl (OtherException ''never called''))\<rparr>)
         empty_history_world =
       init_expense_history sample_library empty_history_world"
proof -
  have f: "files empty_history_world expense_history_path = Some []"
    by (simp add: empty_history_world_def write_text_def)
  have d: "json_dump sample_library default_expense_history = default_expense_history_text"
    by (simp add: sample_library_def default_expense_history_def)
  note t = empty_expense_history_like_missing
             [OF f, of sample_library "\<lambda>s. Inl (OtherException ''never called'')"]
  from t have r: "init_expense_history sample_library empty_history_world =
      (py_print ''Created new expense history file with default structure''
         (write_text expense_history_path (json_dump sample_library default_expense_history)
            empty_history_world),
       Inr default_expense_history)"
    by (rule conjunct1)
  have r1: "snd (init_expense_history sample_library empty_history_world) =
              Inr default_expense_history"
    by (simp add: r)
  have r2: "files (fst (init_expense_history sample_library empty_history_world))
              expense_history_path = Some default_expense_history_text"
    by (simp add: r d py_print_def write_text_def)
  from t have r3: "init_expense_history sample_library empty_history_world =
       init_expense_history sample_library
         (empty_history_world\<lparr>files := (files empty_history_world)(expense_history_path := None)\<rparr>)"
    by (rule conjunct1 [OF conjunct2])
  from t have r4: "init_expense_history
         (sample_library\<lparr>json_load := (\<lambda>s. Inl (OtherException ''never called''))\<rparr>)
         empty_history_world =
       init_expense_history sample_library empty_history_world"
    by (rule conjunct2 [OF conjunct2])
  show ?thesis
    by (intro conjI) (rule f r1 r2 r3 r4)+
qed

section \<open>The API key guard\<close>

text \<open>
  Claim C5. When \<^verbatim>\<open>GOOGLE_API_KEY\<close>, as \<^verbatim>\<open>os.getenv\<close> reads it after the dotenv file
  was loaded, is unset or empty, the script ends at once with a \<^verbatim>\<open>ValueError\<close>: no
  framework object has been constructed, no file written and nothing printed.
\<close>

theorem missing_api_key_fails_fast:
  assumes "load_dotenv X (environ w) ''GOOGLE_API_KEY'' = None
         \<or> load_dotenv X (environ w) ''GOOGLE_API_KEY'' = Some []"
  shows "run_script X w =
           (w\<lparr>environ := load_dotenv X (environ w)\<rparr>,
            Inl (ValueError ''Please set GOOGLE_API_KEY in your environment variables''))
       \<and> constructed (fst (run_script X w)) = constructed w
       \<and> files (fst (run_script X w)) = files w
       \<and> console (fst (run_script X w)) = console w"
proof -
  have "configure X w =
          (w\<lparr>environ := load_dotenv X (environ w)\<rparr>,
           Inl (ValueError ''Please set GOOGLE_API_KEY in your environment variables''))"
    using assms by (auto simp: configure_def os_getenv_def Let_def)
  then show ?thesis
    by (simp add: run_script_def prepare_def and_then_def)
qed

theorem missing_api_key_fails_fast_witness:
  "load_dotenv sample_library (environ (sample_world\<lparr>environ := Map.empty\<rparr>)) ''GOOGLE_API_KEY'' = None
   \<and> snd (run_script sample_library (sample_world\<lparr>environ := Map.empty\<rparr>)) =
        Inl (ValueError ''Please set GOOGLE_API_KEY in your environment variables'')
   \<and> constructed (fst (run_script sample_library (sample_world\<lparr>environ := Map.empty\<rparr>))) = []
   \<and> load_dotenv sample_library (environ (sample_world\<lparr>environ := [''GOOGLE_API_KEY'' \<mapsto> []]\<rparr>)) ''GOOGLE_API_KEY'' = Some []
   \<and> snd (run_script sample_library (sample_world\<lparr>environ := [''GOOGLE_API_KEY'' \<mapsto> []]\<rparr>)) =
        Inl (ValueError ''Please set GOOGLE_API_KEY in your environment variables'')
   \<and> constructed (fst (run_script sample_library (sample_world\<lparr>environ := [''GOOGLE_API_KEY'' \<mapsto> []]\<rparr>))) = []"
proof -
  have a: "load_dotenv sample_library (environ (sample_world\<lparr>environ := Map.empty\<rparr>)) ''GOOGLE_API_KEY'' = None"
    by (simp add: sample_library_def)
  have b: "load_dotenv sample_library (environ (sample_world\<lparr>environ := [''GOOGLE_API_KEY'' \<mapsto> []]\<rparr>)) ''GOOGLE_API_KEY'' = Some []"
    by (simp add: sample_library_def)
  have c: "constructed sample_world = []"
    by (simp add: sample_world_def)
  show ?thesis
    using missing_api_key_fails_fast [OF disjI1 [OF a]] missing_api_key_fails_fast [OF disjI2 [OF b]] a b c
    by simp
qed

section \<open>The crew's task list and its execution\<close>




section \<open>The web-search tools\<close>

text \<open>
  Claim C8. A run that builds the crew constructs exactly two web-search tools, in
  this order: one for \<^verbatim>\<open>https://www.stilltasty.com/\<close>, held by the agent of the
  expiration-date task, and one for \<^verbatim>\<open>https://www.americastestkitchen.com/recipes\<close>,
  held by the agent of the recipe task. The agents of the other three tasks hold no
  tool, so no other website is targeted.
\<close>

theorem two_website_search_tools:
  assumes "prepare X w = (w', Inr c)"
  shows "(\<exists>objs. constructed w' = constructed w @ objs
            \<and> website_search_tools objs = [expiration_date_search_web_tool, recipe_web_tool])
       \<and> map (\<lambda>t. agent_tools (task_agent t)) (crew_tasks c) =
           [[], [expiration_date_search_web_tool], [], [recipe_web_tool], []]
       \<and> concat (map agent_tools (crew_agents c)) =
           [expiration_date_search_web_tool, recipe_web_tool]
       \<and> tool_website expiration_date_search_web_tool = ''https://www.stilltasty.com/''
       \<and> tool_website recipe_web_tool = ''https://www.americastestkitchen.com/recipes''"
proof -
  from prepare_Inr [OF assms] obtain g w1 eh w2 content where
    c: "configure X w = (w1, Inr g)" and
    i: "init_expense_history X w1 = (w2, Inr eh)" and
    cr: "c = crew g (markdown X content) (datetime_now X)" and
    w': "w' = fst (build_crew g (markdown X content) (datetime_now X)
                (py_print ''Receipt loaded successfully!'' (fst (load_receipt X w2))))"
    by blast
  have "constructed w' =
          constructed w @
          [LLM_Object g, GenerativeModel_Object (llm_api_key g) ''gemini-1.5-flash'',
           Agent_Object (receipt_interpreter_agent g),
           WebsiteSearchTool_Object expiration_date_search_web_tool,
           Agent_Object (expiration_date_search_agent g),
           Agent_Object (grocery_tracker_agent g),
           WebsiteSearchTool_Object recipe_web_tool,
           Agent_Object (rest_grocery_recipe_agent g),
           Task_Object (read_receipt_task g (markdown X content) (datetime_now X)),
           Task_Object (expiration_date_search_task g (markdown X content) (datetime_now X)),
           Task_Object (grocery_tracking_task g (markdown X content) (datetime_now X)),
           Task_Object (recipe_recommendation_task g (markdown X content) (datetime_now X)),
           Agent_Object (expense_tracking_agent g),
           Task_Object (expense_tracking_task g (markdown X content) (datetime_now X)),
           Crew_Object (crew g (markdown X content) (datetime_now X))]"
    using configure_Inr [OF c] init_expense_history_constructed [OF i]
    by (simp add: w' build_crew_constructed load_receipt_constructed)
  then have log: "\<exists>objs. constructed w' = constructed w @ objs
            \<and> website_search_tools objs = [expiration_date_search_web_tool, recipe_web_tool]"
    by simp
  show ?thesis
    by (intro conjI log)
       (simp_all add: cr crew_tasks_crew crew_agents_crew task_agent_simps agent_tools_simps
                      expiration_date_search_web_tool_def recipe_web_tool_def)
qed

theorem two_website_search_tools_witness:
  "(\<exists>w' c. prepare sample_library receipt_world = (w', Inr c)
      \<and> website_search_tools (constructed w') =
          [expiration_date_search_web_tool, recipe_web_tool]
      \<and> concat (map agent_tools (crew_agents c)) =
          [expiration_date_search_web_tool, recipe_web_tool])"
proof -
  from prepare_receipt_world obtain w' where
    p: "prepare sample_library receipt_world =
          (w', Inr (crew sample_llm (''<p>'' @ vision_text @ ''</p>'') ''2024-05-01''))"
    by blast
  note t = two_website_search_tools [OF p]
  have "constructed receipt_world = []"
    by (simp add: receipt_world_def sample_world_def)
  with t have "website_search_tools (constructed w') =
          [expiration_date_search_web_tool, recipe_web_tool]"
    by auto
  with p t show ?thesis
    by blast
qed

section \<open>The receipt text given to the first task\<close>

text \<open>
  Claim C9. Whatever happened to the receipt image, the receipt text inside the
  description of the read-receipt task is the markdown rendering of the content of
  \<^verbatim>\<open>data/grocery_receipt.md\<close> as the script read it again at line 175; that file
  exists on every run that gets there. When image processing succeeded, the file
  holds the vision model's text, so the description carries the rendering of that
  text and not the string image processing returned.
\<close>

theorem receipt_text_is_rendered_markdown_file:
  assumes "prepare X w = (w', Inr c)"
  shows "\<exists>content. files w' receipt_md_path = Some content
           \<and> task_description (crew_tasks c ! 0) =
               ''Analyze the receipt markdown file provided: '' @ markdown X content @
               ''. Extract information on items purchased, their counts, weights, and units. Additionally, extract today's date information which is provided here: '' @
               datetime_now X @
               ''. Ensure all item names are converted into clear, human-readable text.''"
proof -
  from prepare_Inr [OF assms] obtain g w2 content where
    f: "files (fst (load_receipt X w2)) receipt_md_path = Some content" and
    cr: "c = crew g (markdown X content) (datetime_now X)" and
    w': "w' = fst (build_crew g (markdown X content) (datetime_now X)
                (py_print ''Receipt loaded successfully!'' (fst (load_receipt X w2))))"
    by blast
  have "files w' receipt_md_path = Some content"
    by (simp add: w' build_crew_files f)
  moreover have "task_description (crew_tasks c ! 0) =
               ''Analyze the receipt markdown file provided: '' @ markdown X content @
               ''. Extract information on items purchased, their counts, weights, and units. Additionally, extract today's date information which is provided here: '' @
               datetime_now X @
               ''. Ensure all item names are converted into clear, human-readable text.''"
    by (simp add: cr crew_tasks_crew read_receipt_task_def)
  ultimately show ?thesis
    by blast
qed

theorem receipt_text_is_rendered_markdown_file_witness:
  "path_exists receipt_world receipt_image_path
   \<and> files receipt_world receipt_md_path = Some ''eggs 2.50''
   \<and> (\<exists>w' c. prepare sample_library receipt_world = (w', Inr c)
        \<and> files w' receipt_md_path = Some ''Corner Store: milk 3.00''
        \<and> task_description (crew_tasks c ! 0) =
            ''Analyze the receipt markdown file provided: <p>Corner Store: milk 3.00</p>. Extract information on items purchased, their counts, weights, and units. Additionally, extract today's date information which is provided here: 2024-05-01. Ensure all item names are converted into clear, human-readable text.'')"
proof -
  from prepare_receipt_world obtain w' where
    p: "prepare sample_library receipt_world =
          (w', Inr (crew sample_llm (''<p>'' @ vision_text @ ''</p>'') ''2024-05-01''))" and
    f: "files w' receipt_md_path = Some vision_text"
    by blast
  from receipt_text_is_rendered_markdown_file [OF p] f
  have d: "task_description
             (crew_tasks (crew sample_llm (''<p>'' @ vision_text @ ''</p>'') ''2024-05-01'') ! 0) =
           ''Analyze the receipt markdown file provided: <p>Corner Store: milk 3.00</p>. Extract information on items purchased, their counts, weights, and units. Additionally, extract today's date information which is provided here: 2024-05-01. Ensure all item names are converted into clear, human-readable text.''"
    by (simp add: sample_library_def vision_text_def)
  have e: "path_exists receipt_world receipt_image_path"
    by (simp add: path_exists_def receipt_world_def)
  have m: "files receipt_world receipt_md_path = Some ''eggs 2.50''"
    by (simp add: receipt_world_def receipt_md_path_def receipt_image_path_def)
  from p f d have "\<exists>w' c. prepare sample_library receipt_world = (w', Inr c)
        \<and> files w' receipt_md_path = Some ''Corner Store: milk 3.00''
        \<and> task_description (crew_tasks c ! 0) =
            ''Analyze the receipt markdown file provided: <p>Corner Store: milk 3.00</p>. Extract information on items purchased, their counts, weights, and units. Additionally, extract today's date information which is provided here: 2024-05-01. Ensure all item names are converted into clear, human-readable text.''"
    by (auto simp: vision_text_def)
  with e m show ?thesis
    by blast
qed

section \<open>Errors while processing the receipt image\<close>




section \<open>The expense history across a run\<close>

text \<open>
  Claim C4 at a concrete run. The history file holds one expense entry and parses;
  the script loads it and builds the same crew it builds when there is no history
  file, and the run ends normally. Afterwards the file holds the output of the expense-tracking stage and
  nothing else: the entry that was in the file before the run is gone.
\<close>

theorem expense_history_replaced_by_run:
  "files history_world expense_history_path = Some history_text
   \<and> json_load sample_library history_text =
       Inr (JObject [(''expenses'',
              JArray [JObject [(''item'', JString ''milk''), (''amount'', JNumber 3)]])])
   \<and> (\<exists>w'. prepare sample_library history_world = (w', Inr (crew sample_llm [] ''2024-05-01''))
         \<and> files w' expense_history_path = Some history_text)
   \<and> (\<exists>v'. prepare sample_library
               (history_world\<lparr>files := (files history_world)(expense_history_path := None)\<rparr>) =
             (v', Inr (crew sample_llm [] ''2024-05-01'')))
   \<and> (\<exists>outs. snd (run_script sample_library history_world) = Inr outs)
   \<and> files (fst (run_script sample_library history_world)) expense_history_path =
       Some summary_text
   \<and> summary_text \<noteq> history_text"
proof -
  let ?v = "history_world\<lparr>files := (files history_world)(expense_history_path := None)\<rparr>"
  have a: "files history_world expense_history_path = Some history_text"
    by (simp add: history_world_def)
  have b: "json_load sample_library history_text =
       Inr (JObject [(''expenses'',
              JArray [JObject [(''item'', JString ''milk''), (''amount'', JNumber 3)]])])"
    by (simp add: sample_library_def)
  from prepare_history_world obtain w' where
    p: "prepare sample_library history_world = (w', Inr (crew sample_llm [] ''2024-05-01''))"
    by blast
  have k: "load_dotenv sample_library (environ ?v) ''GOOGLE_API_KEY'' = Some ''secret''"
    by (simp add: sample_key history_world_def)
  have h: "case files ?v expense_history_path of
             None \<Rightarrow> True
           | Some content \<Rightarrow> content = [] \<or> (\<exists>j. json_load sample_library content = Inr j)
                              \<or> (\<exists>m. json_load sample_library content = Inl (JSONDecodeError m))"
    by simp
  have "''secret'' \<noteq> []"
    by simp
  from prepare_succeeds [OF k this h] obtain v' c' where
    q: "prepare sample_library ?v = (v', Inr c')"
    by blast
  from prepare_crew_frame [OF p q] q
  have s: "\<exists>v'. prepare sample_library ?v = (v', Inr (crew sample_llm [] ''2024-05-01''))"
    by blast
  from run_script_history_world obtain w'' outs where
    r: "run_script sample_library history_world = (w'', Inr outs)" and
    f: "files w'' expense_history_path = Some summary_text"
    by blast
  have c: "\<exists>outs. snd (run_script sample_library history_world) = Inr outs"
    by (simp add: r)
  have d: "files (fst (run_script sample_library history_world)) expense_history_path =
       Some summary_text"
    by (simp add: r f)
  have e: "summary_text \<noteq> history_text"
    by (simp add: summary_text_def history_text_def)
  show ?thesis
    by (intro conjI) (rule a b prepare_history_world s c d e)+
qed

end
